theory Spec2Isabelle
  imports Complex_Main
begin

section \<open>Python and pandas values\<close>

text \<open>
  The wrapper \<^verbatim>\<open>gseapy/gsva.py\<close> is glue around pandas. The embedding keeps the part of
  pandas the wrapper relies on, as pandas 1.x/2.x documents it (strings are held under the
  \<^verbatim>\<open>object\<close> dtype). Floating-point numbers are idealised as reals, so infinities and
  rounding are outside the model; Python's \<^verbatim>\<open>1 == 1.0 == True\<close> is kept by giving every
  number one constructor and leaving the distinction between int, float and bool to the
  dtype of the container.
\<close>

datatype pyval = NA | Num real | Str string

datatype dtype = Int64 | Float64 | Bool | Object | Unicode

datatype error =
    PyException string
  | AttributeError
  | TypeError
  | IndexError
  | ValueError
  | AssertionError
  | External string

text \<open>\<^verbatim>\<open>np.number\<close> covers the integer and floating dtypes, not bool, object or str.\<close>

fun is_number :: "dtype \<Rightarrow> bool" where
  "is_number Int64 = True"
| "is_number Float64 = True"
| "is_number Bool = False"
| "is_number Object = False"
| "is_number Unicode = False"

fun isnull :: "pyval \<Rightarrow> bool" where
  "isnull NA = True"
| "isnull (Num x) = False"
| "isnull (Str s) = False"

fun is_str :: "pyval \<Rightarrow> bool" where
  "is_str (Str s) = True"
| "is_str NA = False"
| "is_str (Num x) = False"

fun num_of :: "pyval \<Rightarrow> real option" where
  "num_of (Num x) = Some x"
| "num_of NA = None"
| "num_of (Str s) = None"

subsection \<open>\<^verbatim>\<open>str()\<close> of a label\<close>

definition digit_char :: "nat \<Rightarrow> char" where
  "digit_char d = char_of (48 + d)"

fun str_nat :: "nat \<Rightarrow> string" where
  "str_nat n = (if n < 10 then [digit_char n] else str_nat (n div 10) @ [digit_char (n mod 10)])"

declare str_nat.simps [simp del]

definition str_int :: "int \<Rightarrow> string" where
  "str_int i = (if i < 0 then CHR ''-'' # str_nat (nat (- i)) else str_nat (nat i))"

text \<open>
  \<^verbatim>\<open>Index.astype(str)\<close> and \<^verbatim>\<open>numpy_scalar.astype(str)\<close> print every element with \<^verbatim>\<open>str\<close>.
  How a float prints is a property of the floating-point printer, so it is the parameter
  \<open>fr\<close>; integers and booleans print as Python prints them.
\<close>

fun py_str :: "(real \<Rightarrow> string) \<Rightarrow> dtype \<Rightarrow> pyval \<Rightarrow> string" where
  "py_str fr d (Str s) = s"
| "py_str fr d NA = ''nan''"
| "py_str fr Int64 (Num x) = str_int \<lfloor>x\<rfloor>"
| "py_str fr Bool (Num x) = (if x = 0 then ''False'' else ''True'')"
| "py_str fr Float64 (Num x) = fr x"
| "py_str fr Object (Num x) = fr x"
| "py_str fr Unicode (Num x) = fr x"

definition astype_str :: "(real \<Rightarrow> string) \<Rightarrow> dtype \<Rightarrow> pyval \<Rightarrow> pyval" where
  "astype_str fr d v = Str (py_str fr d v)"

definition endswith :: "string \<Rightarrow> string \<Rightarrow> bool" where
  "endswith s suf = (length suf \<le> length s \<and> drop (length s - length suf) s = suf)"

subsection \<open>Results of fallible steps\<close>

fun collect :: "(error + 'a) list \<Rightarrow> error + 'a list" where
  "collect [] = Inr []"
| "collect (Inl e # rs) = Inl e"
| "collect (Inr x # rs) = (case collect rs of Inl e \<Rightarrow> Inl e | Inr xs \<Rightarrow> Inr (x # xs))"

section \<open>DataFrame and Series\<close>

text \<open>
  A DataFrame is kept row by row, as \<^verbatim>\<open>df.values.tolist()\<close> hands it to the engine:
  \<open>rows\<close> pairs each row label (the gene identifier) with the cells of that row, and
  \<open>columns\<close> pairs each column label (the sample) with the dtype of the column.
  \<open>index_dtype\<close> and \<open>columns_dtype\<close> are the dtypes of the two \<^verbatim>\<open>Index\<close> objects.
\<close>

record frame =
  index_dtype :: dtype
  columns_dtype :: dtype
  columns :: "(pyval \<times> dtype) list"
  rows :: "(pyval \<times> pyval list) list"

text \<open>
  The name of a Series is any hashable object: \<open>NoName\<close> is \<^verbatim>\<open>None\<close>, \<open>Plain v\<close> a plain
  Python object (str, int, float), which has no \<^verbatim>\<open>dtype\<close> attribute, and \<open>NpScalar d v\<close> a
  numpy scalar of dtype \<open>d\<close>.
\<close>

datatype pyname = NoName | Plain pyval | NpScalar dtype pyval

record series =
  name :: pyname
  s_index_dtype :: dtype
  s_dtype :: dtype
  items :: "(pyval \<times> pyval) list"

definition index_values :: "frame \<Rightarrow> pyval list" where
  "index_values f = map fst (rows f)"



text \<open>
  \<^verbatim>\<open>set_index(keys=columns[0], inplace=True)\<close>: \<^verbatim>\<open>columns[0]\<close> raises IndexError on a frame
  without columns; a label that names several columns selects a frame, not a column, and
  \<^verbatim>\<open>set_index\<close> refuses it. Otherwise the first column becomes the row index and leaves
  the columns. A rectangular frame with a column has a first cell in every row; a row
  without cells (which no DataFrame has) gets a missing label.
\<close>

definition set_index_first :: "frame \<Rightarrow> error + frame" where
  "set_index_first f =
     (case columns f of
        [] \<Rightarrow> Inl IndexError
      | (l, d) # cs \<Rightarrow>
          if l \<in> set (map fst cs) then Inl ValueError
          else Inr (f\<lparr>index_dtype := d,
                      columns := cs,
                      rows := map (\<lambda>(g, vs). (case vs of [] \<Rightarrow> (NA, []) | v # vs' \<Rightarrow> (v, vs')))
                                (rows f)\<rparr>))"

definition columns_astype_str :: "(real \<Rightarrow> string) \<Rightarrow> frame \<Rightarrow> frame" where
  "columns_astype_str fr f =
     f\<lparr>columns := map (\<lambda>(l, d). (astype_str fr (columns_dtype f) l, d)) (columns f),
       columns_dtype := Object\<rparr>"

text \<open>\<^verbatim>\<open>select_dtypes(include=[np.number])\<close> keeps the columns of a numeric dtype.\<close>

definition keep_cells :: "(pyval \<times> dtype) list \<Rightarrow> pyval list \<Rightarrow> pyval list" where
  "keep_cells cs vs = map snd (filter (\<lambda>(c, v). is_number (snd c)) (zip cs vs))"

definition select_dtypes_number :: "frame \<Rightarrow> frame" where
  "select_dtypes_number f =
     f\<lparr>columns := filter (\<lambda>c. is_number (snd c)) (columns f),
       rows := map (\<lambda>(g, vs). (g, keep_cells (columns f) vs)) (rows f)\<rparr>"

text \<open>\<^verbatim>\<open>Series.to_frame()\<close>: one column, labelled with the name of the Series.\<close>

fun name_label :: "pyname \<Rightarrow> pyval" where
  "name_label NoName = Num 0"
| "name_label (Plain v) = v"
| "name_label (NpScalar d v) = v"

fun infer_dtype :: "pyval \<Rightarrow> dtype" where
  "infer_dtype (Str s) = Object"
| "infer_dtype (Num x) = (if x = of_int \<lfloor>x\<rfloor> then Int64 else Float64)"
| "infer_dtype NA = Float64"

definition to_frame :: "series \<Rightarrow> frame" where
  "to_frame s =
     \<lparr>index_dtype = s_index_dtype s,
      columns_dtype = infer_dtype (name_label (name s)),
      columns = [(name_label (name s), s_dtype s)],
      rows = map (\<lambda>(g, v). (g, [v])) (items s)\<rparr>"

text \<open>\<^verbatim>\<open>isnull().any().sum() > 0\<close>: some cell is missing. \<^verbatim>\<open>fillna(0)\<close> replaces each.\<close>

definition has_null :: "frame \<Rightarrow> bool" where
  "has_null f = list_ex (\<lambda>r. list_ex isnull (snd r)) (rows f)"

fun fill0 :: "pyval \<Rightarrow> pyval" where
  "fill0 NA = Num 0"
| "fill0 (Num x) = Num x"
| "fill0 (Str s) = Str s"

definition fillna0 :: "frame \<Rightarrow> frame" where
  "fillna0 f = f\<lparr>rows := map (\<lambda>(g, vs). (g, map fill0 vs)) (rows f)\<rparr>"

text \<open>\<^verbatim>\<open>index.duplicated().sum() > 0\<close>: some row label occurs twice.\<close>

definition has_duplicated :: "frame \<Rightarrow> bool" where
  "has_duplicated f = (\<not> distinct (index_values f))"

subsection \<open>\<^verbatim>\<open>groupby(level=0).mean()\<close>\<close>

text \<open>
  The groups are the distinct row labels; a missing label is no group (\<^verbatim>\<open>dropna=True\<close>) and
  the groups come out sorted (\<^verbatim>\<open>sort=True\<close>), numbers before strings.
\<close>

fun str_le :: "string \<Rightarrow> string \<Rightarrow> bool" where
  "str_le [] t = True"
| "str_le (a # s) [] = False"
| "str_le (a # s) (b # t) = ((of_char a :: nat) < of_char b \<or> (a = b \<and> str_le s t))"

fun py_le :: "pyval \<Rightarrow> pyval \<Rightarrow> bool" where
  "py_le (Num x) (Num y) = (x \<le> y)"
| "py_le (Num x) (Str t) = True"
| "py_le (Str s) (Num y) = False"
| "py_le (Str s) (Str t) = str_le s t"
| "py_le NA v = False"
| "py_le v NA = True"

fun insert_key :: "pyval \<Rightarrow> pyval list \<Rightarrow> pyval list" where
  "insert_key k [] = [k]"
| "insert_key k (x # xs) = (if py_le k x then k # x # xs else x # insert_key k xs)"

definition sort_keys :: "pyval list \<Rightarrow> pyval list" where
  "sort_keys ks = foldr insert_key ks []"

definition group_keys :: "pyval list \<Rightarrow> pyval list" where
  "group_keys ls = sort_keys (remdups (filter (\<lambda>g. \<not> isnull g) ls))"

text \<open>
  The mean of one column of one group skips missing cells and is missing when nothing is
  left; a string in the column makes pandas raise TypeError.
\<close>

definition nums :: "pyval list \<Rightarrow> real list" where
  "nums vs = concat (map (\<lambda>v. case v of Num x \<Rightarrow> [x] | NA \<Rightarrow> [] | Str s \<Rightarrow> []) vs)"

definition mean_cells :: "pyval list \<Rightarrow> error + pyval" where
  "mean_cells vs =
     (if list_ex is_str vs then Inl TypeError
      else if nums vs = [] then Inr NA
      else Inr (Num (sum_list (nums vs) / real (length (nums vs)))))"

definition group_rows :: "frame \<Rightarrow> pyval \<Rightarrow> pyval list list" where
  "group_rows f g = map snd (filter (\<lambda>r. fst r = g) (rows f))"

definition group_mean :: "frame \<Rightarrow> pyval \<Rightarrow> error + (pyval \<times> pyval list)" where
  "group_mean f g =
     (case collect (map mean_cells (transpose (group_rows f g))) of
        Inl e \<Rightarrow> Inl e
      | Inr vs \<Rightarrow> Inr (g, vs))"

definition groupby_mean :: "frame \<Rightarrow> error + frame" where
  "groupby_mean f =
     (case collect (map (group_mean f) (group_keys (index_values f))) of
        Inl e \<Rightarrow> Inl e
      | Inr rs \<Rightarrow> Inr (f\<lparr>columns := map (\<lambda>(l, d). (l, Float64)) (columns f), rows := rs\<rparr>))"




section \<open>The objects of the program\<close>

text \<open>
  The \<^verbatim>\<open>data\<close> argument is an object the caller keeps: \<^verbatim>\<open>self.data\<close> is a reference to it,
  and \<^verbatim>\<open>exprs = self.data\<close> is an alias. The objects live in a store addressed by
  numbers; \<open>next_obj\<close> is the first address not yet in use. \<open>PyNone\<close> stands for an
  argument that is no DataFrame, no Series and no path (\<^verbatim>\<open>None\<close>, a list, a dict).
\<close>

datatype data = DataFrame frame | Series series | PyStr string | PyNone

record world =
  objs :: "nat \<Rightarrow> data"
  next_obj :: nat
  dirs :: "string list"

type_synonym gmt = "(string \<times> string list) list"

datatype gene_sets = GmtFile string | GmtNames "string list" | GmtDict gmt

text \<open>
  What \<^verbatim>\<open>GSEAbase.__init__\<close> leaves in the object. The base class is not part of the
  source at hand, so its constructor is a parameter of the model (\<open>base_init\<close> below).
\<close>

record base =
  priv_outdir :: "string option"
  outdir :: string
  gene_sets :: gene_sets
  module :: string
  priv_threads :: int
  verbose :: bool

record gsva =
  super :: base
  data :: nat
  tau :: real
  min_size :: int
  max_size :: int
  seed :: int
  mx_diff :: bool
  abs_rnk :: bool
  ranking :: "nat list list option"
  permutation_num :: int
  priv_noplot :: bool
  kernel :: bool
  rnaseq :: bool
  permutation_type :: string
  gmt :: "gmt option"

text \<open>
  What \<^verbatim>\<open>pd.read_csv(..., index_col=0)\<close> parses: the header cells are text, so the column
  labels are strings; the row labels and the cells are what the parser infers.
\<close>

record csv =
  csv_index_dtype :: dtype
  csv_header :: "(string \<times> dtype) list"
  csv_rows :: "(pyval \<times> pyval list) list"

definition frame_of_csv :: "csv \<Rightarrow> frame" where
  "frame_of_csv c =
     \<lparr>index_dtype = csv_index_dtype c,
      columns_dtype = Object,
      columns = map (\<lambda>(s, d). (Str s, d)) (csv_header c),
      rows = csv_rows c\<rparr>"

text \<open>
  Modelled from the spec: the engine is compiled code outside the source at hand. Its
  result has the fields the wrapper reads (\<^verbatim>\<open>summaries\<close>, \<^verbatim>\<open>rankings\<close>, \<^verbatim>\<open>indices\<close>), typed as
  the interface of the engine is described: a score row for each surviving gene set,
  and arrays of gene indices.
\<close>

record gsum =
  summaries :: "(string \<times> real list) list"
  rankings :: "nat list list"
  indices :: "nat list list"

text \<open>
  The collaborators of the wrapper that are not in the source at hand are parameters:
  the file system (\<open>isfile\<close> for \<^verbatim>\<open>os.path.isfile\<close> on a string, \<open>read_csv\<close> taking the path,
  \<^verbatim>\<open>skiprows\<close> and \<^verbatim>\<open>sep\<close>, \<open>mkdirs\<close> taking the path and the directories there are), the
  float printer, whether \<^verbatim>\<open>assert\<close> statements run (\<^verbatim>\<open>__debug__\<close>, false under
  \<^verbatim>\<open>python -O\<close>), the base class (\<open>base_init\<close>, \<open>load_gmt\<close>, \<open>to_df\<close>), the compiled engine
  \<open>gsva_rs\<close> and the subscript \<^verbatim>\<open>rnk[ind]\<close> on the engine's result (\<open>getitem\<close>). Each is a
  function of what the wrapper passes to it. The calls to the logger are left out: they
  neither return a value nor change an object of the model.
\<close>

record env =
  isfile :: "string \<Rightarrow> bool"
  read_csv :: "string \<Rightarrow> nat \<Rightarrow> string \<Rightarrow> error + csv"
  mkdirs :: "string \<Rightarrow> string list \<Rightarrow> error + string list"
  float_repr :: "real \<Rightarrow> string"
  py_debug :: bool
  base_init :: "string option \<Rightarrow> gene_sets \<Rightarrow> string \<Rightarrow> int \<Rightarrow> bool \<Rightarrow> base"
  load_gmt :: "gsva \<Rightarrow> pyval list \<Rightarrow> gene_sets \<Rightarrow> error + gmt"
  to_df :: "gsva \<Rightarrow> (string \<times> real list) list \<Rightarrow> gmt \<Rightarrow> frame \<Rightarrow> nat list list \<Rightarrow> error + gsva"
  gsva_rs :: "pyval list \<Rightarrow> pyval list list \<Rightarrow> gmt \<Rightarrow> bool \<Rightarrow> bool \<Rightarrow> bool \<Rightarrow> bool \<Rightarrow> real
               \<Rightarrow> int \<Rightarrow> int \<Rightarrow> int \<Rightarrow> error + gsum"
  getitem :: "nat list \<Rightarrow> nat list \<Rightarrow> error + nat list"

section \<open>\<^verbatim>\<open>GSVA.__init__\<close>\<close>

definition init ::
  "env \<Rightarrow> nat \<Rightarrow> gene_sets \<Rightarrow> string option \<Rightarrow> string option \<Rightarrow> real \<Rightarrow> bool \<Rightarrow> bool \<Rightarrow> int \<Rightarrow> int
     \<Rightarrow> int \<Rightarrow> int \<Rightarrow> bool \<Rightarrow> gsva" where
  "init env data_arg gene_sets_arg outdir_arg kcdf weight mx_diff_arg abs_rnk_arg min_size_arg
        max_size_arg threads seed_arg verbose_arg =
     \<lparr>super = base_init env outdir_arg gene_sets_arg ''gsva'' threads verbose_arg,
      data = data_arg,
      tau = weight,
      min_size = min_size_arg,
      max_size = max_size_arg,
      seed = seed_arg,
      mx_diff = mx_diff_arg,
      abs_rnk = abs_rnk_arg,
      ranking = None,
      permutation_num = 0,
      priv_noplot = True,
      kernel = (if kcdf \<in> set [Some ''Gaussian'', Some ''gaussian''] then True
                else if kcdf \<in> set [Some ''Poisson'', Some ''poisson''] then True
                else False),
      rnaseq = (if kcdf \<in> set [Some ''Gaussian'', Some ''gaussian''] then False
                else if kcdf \<in> set [Some ''Poisson'', Some ''poisson''] then True
                else False),
      permutation_type = ''gene_set'',
      gmt = None\<rparr>"

section \<open>\<^verbatim>\<open>GSVA.load_data\<close>\<close>

definition tab :: string where
  "tab = [CHR 0x09]"

text \<open>
  Lines 69 to 108: the three kinds of input. Only the Series branch writes to the
  caller's object (\<^verbatim>\<open>exprs.name = ...\<close>); the DataFrame branch works on a copy.
  \<^verbatim>\<open>os.path.isfile\<close> answers False for a string that names no file and raises TypeError
  for an object that is no path.
\<close>

definition read_input :: "env \<Rightarrow> gsva \<Rightarrow> world \<Rightarrow> (error + frame) \<times> world" where
  "read_input env self w =
     (case objs w (data self) of
        DataFrame exprs \<Rightarrow>
          (case (if index_dtype exprs \<noteq> Object then set_index_first exprs else Inr exprs) of
             Inl e \<Rightarrow> (Inl e, w)
           | Inr rank_metric \<Rightarrow>
               (Inr (select_dtypes_number
                       (if columns_dtype rank_metric \<noteq> Object
                        then columns_astype_str (float_repr env) rank_metric
                        else rank_metric)), w))
      | Series exprs \<Rightarrow>
          (case name exprs of
             NoName \<Rightarrow>
               (let exprs' = exprs\<lparr>name := Plain (Str ''sample1'')\<rparr>
                in (Inr (to_frame exprs'), w\<lparr>objs := (objs w)(data self := Series exprs')\<rparr>))
           | Plain v \<Rightarrow> (Inl AttributeError, w)
           | NpScalar d v \<Rightarrow>
               if d \<noteq> Object
               then (let exprs' = exprs\<lparr>name := NpScalar Unicode (astype_str (float_repr env) d v)\<rparr>
                     in (Inr (to_frame exprs'), w\<lparr>objs := (objs w)(data self := Series exprs')\<rparr>))
               else (Inr (to_frame exprs), w))
      | PyStr exprs \<Rightarrow>
          if isfile env exprs
          then (if endswith exprs ''gct''
                then (case read_csv env exprs 1 tab of
                        Inl e \<Rightarrow> (Inl e, w)
                      | Inr c \<Rightarrow> (Inr (select_dtypes_number (frame_of_csv c)), w))
                else (case read_csv env exprs 0 (if endswith exprs ''csv'' then '','' else tab) of
                        Inl e \<Rightarrow> (Inl e, w)
                      | Inr c \<Rightarrow>
                          (let rank_metric = frame_of_csv c
                           in (Inr (select_dtypes_number
                                      (if length (columns rank_metric) = 1
                                       then columns_astype_str (float_repr env) rank_metric
                                       else rank_metric)), w))))
          else (Inl (PyException ''Error parsing gene ranking values!''), w)
      | PyNone \<Rightarrow> (Inl TypeError, w))"

text \<open>Lines 110 to 120: fill the missing cells, then average the rows of one label.\<close>

definition load_data :: "env \<Rightarrow> gsva \<Rightarrow> world \<Rightarrow> (error + frame) \<times> world" where
  "load_data env self w =
     (case read_input env self w of
        (Inl e, w') \<Rightarrow> (Inl e, w')
      | (Inr rank_metric, w') \<Rightarrow>
          (let filled = (if has_null rank_metric then fillna0 rank_metric else rank_metric)
           in if has_duplicated filled then (groupby_mean filled, w') else (Inr filled, w')))"

section \<open>\<^verbatim>\<open>GSVA.run\<close>\<close>




section \<open>Notions the claims use\<close>












section \<open>Sample inputs\<close>






text \<open>A Series without a name, and the same Series named with a Python string.\<close>

definition ex_series :: series where
  "ex_series =
     \<lparr>name = NoName, s_index_dtype = Object, s_dtype = Float64,
      items = [(Str ''A'', Num 1), (Str ''B'', Num (- 2))]\<rparr>"

definition ex_series_named :: series where
  "ex_series_named = ex_series\<lparr>name := Plain (Str ''s1'')\<rparr>"

definition ex_csv :: csv where
  "ex_csv =
     \<lparr>csv_index_dtype = Object,
      csv_header = [(''s1'', Float64), (''note'', Object)],
      csv_rows = [(Str ''A'', [Num 1, Str ''x'']), (Str ''B'', [NA, Str ''y''])]\<rparr>"

definition ex_base_init :: "string option \<Rightarrow> gene_sets \<Rightarrow> string \<Rightarrow> int \<Rightarrow> bool \<Rightarrow> base" where
  "ex_base_init od gs m t v =
     \<lparr>priv_outdir = od, outdir = (case od of None \<Rightarrow> ''tmp'' | Some dir \<Rightarrow> dir),
      gene_sets = gs, module = m, priv_threads = t, verbose = v\<rparr>"

definition ex_gmt :: gmt where
  "ex_gmt = [(''set1'', [''A'', ''B''])]"

definition ex_gsum :: gsum where
  "ex_gsum = \<lparr>summaries = [(''set1'', [1 / 2, 1 / 4])], rankings = [], indices = []\<rparr>"

definition ex_env :: env where
  "ex_env =
     \<lparr>isfile = (\<lambda>p. p = ''expr.csv''),
      read_csv = (\<lambda>p k s. if s = '','' then Inr ex_csv else Inl (External ''ParserError'')),
      mkdirs = (\<lambda>p ds. Inr (p # ds)),
      float_repr = (\<lambda>x. ''0.5''),
      py_debug = True,
      base_init = ex_base_init,
      load_gmt = (\<lambda>self genes gs. Inr ex_gmt),
      to_df = (\<lambda>self s g df i. Inr self),
      gsva_rs = (\<lambda>genes m g k r md ar t mn mx th. Inr ex_gsum),
      getitem = (\<lambda>rnk ind. Inr rnk)\<rparr>"

text \<open>The store holding the caller's argument at address 0, and the constructed object.\<close>

definition ex_world :: "data \<Rightarrow> world" where
  "ex_world d = \<lparr>objs = (\<lambda>a. if a = 0 then d else PyNone), next_obj = 1, dirs = []\<rparr>"

definition ex_self :: "string option \<Rightarrow> int \<Rightarrow> int \<Rightarrow> gsva" where
  "ex_self kcdf mn mx =
     init ex_env 0 (GmtDict ex_gmt) (Some ''out'') kcdf 1 True False mn mx 1 123 False"

section \<open>Lemmas\<close>

subsection \<open>Collecting results\<close>

lemma collect_map_Inr: "collect (map Inr ys) = Inr ys"
  by (induction ys) auto


lemma collect_Inl_mem: "collect rs = Inl e \<Longrightarrow> Inl e \<in> set rs"
proof (induction rs)
  case Nil
  then show ?case by simp
next
  case (Cons r rs)
  then show ?case by (cases r) (auto split: sum.splits)
qed

lemma groupby_mean_error: "groupby_mean f = Inl e \<Longrightarrow> e = TypeError"
  unfolding groupby_mean_def group_mean_def mean_cells_def
  by (auto split: sum.splits if_splits dest!: collect_Inl_mem)

subsection \<open>Filling missing cells\<close>









subsection \<open>Grouping\<close>






















subsection \<open>clip\<close>





subsection \<open>What \<^verbatim>\<open>load_data\<close> returns\<close>


subsection \<open>The steps of run\<close>







subsection \<open>The store\<close>







subsection \<open>The size check\<close>




subsection \<open>The shape of the matrix\<close>










subsection \<open>The columns\<close>











section \<open>The claims\<close>








text \<open>
  C4. The kernel configuration depends on \<^verbatim>\<open>kcdf\<close> alone: \<^verbatim>\<open>Gaussian\<close> or \<^verbatim>\<open>gaussian\<close> gives
  the continuous kernel (\<open>kernel\<close> true, \<open>rnaseq\<close> false), \<^verbatim>\<open>Poisson\<close> or \<^verbatim>\<open>poisson\<close> the
  discrete one (both true), and any other value, \<^verbatim>\<open>None\<close> included, switches the kernel
  off (both false).
\<close>

theorem init_kernel_config:
  "kernel (init env d gs od kcdf wt md ar mn mx th sd vb) =
     (kcdf \<in> {Some ''Gaussian'', Some ''gaussian'', Some ''Poisson'', Some ''poisson''})
   \<and> rnaseq (init env d gs od kcdf wt md ar mn mx th sd vb) =
     (kcdf \<in> {Some ''Poisson'', Some ''poisson''})"
  by (simp add: init_def)










text \<open>
  C9. A Series whose name is a plain Python object, a string in particular, makes
  \<^verbatim>\<open>load_data\<close> raise AttributeError, since \<^verbatim>\<open>exprs.name.dtype\<close> is read from it. A Series
  without a name is renamed \<^verbatim>\<open>sample1\<close> and turned into a frame, and so is a Series
  whose name is a numpy scalar; neither raises AttributeError.
\<close>

theorem load_data_series_name:
  assumes "objs w (data self) = Series s"
  shows "(case name s of
            Plain v \<Rightarrow> load_data env self w = (Inl AttributeError, w)
          | NoName \<Rightarrow> fst (load_data env self w) \<noteq> Inl AttributeError
              \<and> fst (read_input env self w) = Inr (to_frame (s\<lparr>name := Plain (Str ''sample1'')\<rparr>))
          | NpScalar d v \<Rightarrow> fst (load_data env self w) \<noteq> Inl AttributeError
              \<and> (\<exists>raw. fst (read_input env self w) = Inr raw))"
  using assms
  by (auto simp: load_data_def read_input_def Let_def split: pyname.splits dest: groupby_mean_error)

theorem load_data_series_name_witness:
  "objs (ex_world (Series ex_series_named)) (data (ex_self None 15 500)) = Series ex_series_named
   \<and> name ex_series_named = Plain (Str ''s1'')
   \<and> load_data ex_env (ex_self None 15 500) (ex_world (Series ex_series_named)) =
       (Inl AttributeError, ex_world (Series ex_series_named))"
  using load_data_series_name [of "ex_world (Series ex_series_named)" "ex_self None 15 500"
      ex_series_named ex_env]
  by (simp add: ex_world_def ex_self_def init_def ex_series_named_def ex_series_def)



end
